theory Spec2Isabelle
  imports Main "HOL-Library.Word"
begin

section \<open>Shared data model: sessions, effects, the client heap\<close>

text \<open>
  The SRT elements talk to three collaborators whose code is not part of the plugin:
  libsrt (sockets, epoll, send, receive), GLib (lists, main loop, signals, mutex) and
  the GStreamer base classes. Every call into them that a property depends on is
  recorded as an \<open>event\<close> in a trace, in program order; what they return is an input of
  the model.
\<close>

type_synonym SRTSOCKET = int
type_synonym GInetAddress = "nat list"
type_synonym bytes = "8 word list"

text \<open>Constants of \<open>srt/srt.h\<close> and \<open>gst/gsturi.h\<close>, which the plugin only includes.\<close>

definition SRT_ERROR :: int where "SRT_ERROR = -1"
definition SRT_INVALID_SOCK :: int where "SRT_INVALID_SOCK = -1"
definition SRT_ETIMEOUT :: int where "SRT_ETIMEOUT = 6003"
definition GST_URI_NO_PORT :: nat where "GST_URI_NO_PORT = 0"

datatype event =
    SrtSocket
  | SrtSetSockOpt SRTSOCKET
  | SrtEpollCreate
  | SrtEpollAddUsock int SRTSOCKET
  | SrtEpollRemoveUsock int SRTSOCKET
  | SrtEpollRelease int
  | SrtEpollWait int
  | SrtBind SRTSOCKET
  | SrtListen SRTSOCKET
  | SrtConnect SRTSOCKET
  | SrtAccept SRTSOCKET
  | SrtSendMsg SRTSOCKET bytes
  | SrtRecvMsg SRTSOCKET
  | SrtClose SRTSOCKET
  | SrtClearLastError
  | SigClientAdded SRTSOCKET GInetAddress
  | SigClientRemoved SRTSOCKET GInetAddress
  | MutexLock
  | MutexUnlock
  | IdleSourceAttach
  | BufferUnref bytes
  | MainContextNew
  | MainLoopNew
  | MainLoopQuit
  | ThreadTryNew
  | ThreadJoin
  | SourceDestroy
  | ServerSourceAttach
  | GstInfo
  | GstDebug
  | GstWarning
  | GstElementError

datatype error = UseAfterFree | NullDeref

text \<open>\<open>GstSRTClient\<close> of gstsrt.h; \<open>guint ref_count\<close> is a 32-bit unsigned counter.\<close>

record GstSRTClient =
  sock :: SRTSOCKET
  addr :: GInetAddress
  ref_count :: "32 word"

text \<open>
  Sessions are heap objects referred to by pointer: \<open>g_list_remove\<close> compares pointers and
  \<open>g_free\<close> ends an object's life. The heap maps a pointer to the object while it is
  allocated; \<open>next_ptr\<close> is the allocator's next address (addresses are not reused, so a
  stale pointer is always seen as stale).
\<close>

record effects =
  trace :: "event list"

record world = effects +
  heap :: "nat \<Rightarrow> GstSRTClient option"
  next_ptr :: nat

definition emit :: "event list \<Rightarrow> 'a effects_scheme \<Rightarrow> 'a effects_scheme" where
  "emit es w = w\<lparr>trace := trace w @ es\<rparr>"

section \<open>gstsrt.c: the reference-counted session\<close>

text \<open>
  \<open>gst_srt_client_new\<close>: \<open>g_return_val_if_fail ((sock != -1) && (addr != NULL), NULL)\<close>,
  then a zeroed allocation with \<open>ref_count = 1\<close>. The result is the new pointer, or
  \<open>None\<close> for \<open>NULL\<close>.
\<close>

definition gst_srt_client_new ::
  "SRTSOCKET \<Rightarrow> GInetAddress option \<Rightarrow> 'a world_scheme \<Rightarrow> nat option \<times> 'a world_scheme" where
  "gst_srt_client_new s a w =
     (case a of
        None \<Rightarrow> (None, w)
      | Some ad \<Rightarrow>
          if s = -1 then (None, w)
          else (Some (next_ptr w),
                w\<lparr>heap := (heap w)(next_ptr w \<mapsto> \<lparr>sock = s, addr = ad, ref_count = 1\<rparr>),
                  next_ptr := Suc (next_ptr w)\<rparr>))"

text \<open>\<open>gst_srt_client_ref\<close>: \<open>client->ref_count++\<close>. A freed object must not be touched.\<close>

definition gst_srt_client_ref :: "nat \<Rightarrow> 'a world_scheme \<Rightarrow> error + 'a world_scheme" where
  "gst_srt_client_ref p w =
     (case heap w p of
        None \<Rightarrow> Inl UseAfterFree
      | Some c \<Rightarrow> Inr (w\<lparr>heap := (heap w)(p \<mapsto> c\<lparr>ref_count := ref_count c + 1\<rparr>)\<rparr>))"

text \<open>
  \<open>gst_srt_client_unref\<close>: decrement; return while the counter is still positive;
  otherwise \<open>srt_close (client->sock)\<close> and \<open>g_free (client)\<close>.
\<close>

definition gst_srt_client_unref :: "nat \<Rightarrow> 'a world_scheme \<Rightarrow> error + 'a world_scheme" where
  "gst_srt_client_unref p w =
     (case heap w p of
        None \<Rightarrow> Inl UseAfterFree
      | Some c \<Rightarrow>
          if ref_count c - 1 > 0
          then Inr (w\<lparr>heap := (heap w)(p \<mapsto> c\<lparr>ref_count := ref_count c - 1\<rparr>)\<rparr>)
          else Inr (emit [SrtClose (sock c)] (w\<lparr>heap := (heap w)(p := None)\<rparr>)))"

text \<open>A driver: a sequence of ref and unref calls on one session, stopping at the first fault.\<close>

datatype refop = Ref | Unref

fun run_client_ops :: "nat \<Rightarrow> refop list \<Rightarrow> 'a world_scheme \<Rightarrow> error + 'a world_scheme" where
  "run_client_ops p [] w = Inr w"
| "run_client_ops p (Ref # os) w =
     (case gst_srt_client_ref p w of Inl e \<Rightarrow> Inl e | Inr w' \<Rightarrow> run_client_ops p os w')"
| "run_client_ops p (Unref # os) w =
     (case gst_srt_client_unref p w of Inl e \<Rightarrow> Inl e | Inr w' \<Rightarrow> run_client_ops p os w')"

text \<open>
  The reference count as the data model describes it, on natural numbers: it changes by
  one with each call, and no call may follow the one that brought it to zero. The
  result is the count after the calls, or \<open>None\<close> when a call is made on a released
  session.
\<close>

fun count_after :: "nat \<Rightarrow> refop list \<Rightarrow> nat option" where
  "count_after n [] = Some n"
| "count_after n (Ref # os) = (if n = 0 then None else count_after (Suc n) os)"
| "count_after n (Unref # os) = (if n = 0 then None else count_after (n - 1) os)"

text \<open>The sockets closed in a trace, in order.\<close>

primrec closes :: "event list \<Rightarrow> SRTSOCKET list" where
  "closes [] = []"
| "closes (e # es) = (case e of SrtClose s \<Rightarrow> s # closes es | _ \<Rightarrow> closes es)"

text \<open>An empty world: nothing allocated, nothing done.\<close>

definition world0 :: world where
  "world0 = \<lparr>trace = [], heap = (\<lambda>_. None), next_ptr = 0\<rparr>"

section \<open>Collaborator types: URIs, buffers, flow results\<close>

text \<open>
  A parsed \<open>GstUri\<close>, as far as the elements read it. A \<open>GstUri *\<close> that may be \<open>NULL\<close> is
  a \<open>GstUri option\<close>; \<open>gst_uri_get_scheme\<close>, \<open>gst_uri_get_host\<close> and \<open>gst_uri_get_port\<close>
  accept \<open>NULL\<close> and then answer \<open>NULL\<close>, \<open>NULL\<close> and \<open>GST_URI_NO_PORT\<close>. The parser
  \<open>gst_uri_from_string\<close> and the printer \<open>gst_uri_to_string\<close> belong to GStreamer and
  are parameters of the functions that call them.
\<close>

record GstUri =
  scheme :: "string option"
  host :: "string option"
  port :: nat

definition gst_uri_get_scheme :: "GstUri option \<Rightarrow> string option" where
  "gst_uri_get_scheme u = (case u of None \<Rightarrow> None | Some v \<Rightarrow> scheme v)"

definition gst_uri_get_host :: "GstUri option \<Rightarrow> string option" where
  "gst_uri_get_host u = (case u of None \<Rightarrow> None | Some v \<Rightarrow> host v)"

definition gst_uri_get_port :: "GstUri option \<Rightarrow> nat" where
  "gst_uri_get_port u = (case u of None \<Rightarrow> GST_URI_NO_PORT | Some v \<Rightarrow> port v)"

definition SRT_URI_SCHEME :: string where "SRT_URI_SCHEME = ''srt''"

datatype GError = GST_URI_ERROR_BAD_URI

datatype GstFlowReturn = GST_FLOW_OK | GST_FLOW_EOS | GST_FLOW_ERROR

datatype GSocketFamily = G_SOCKET_FAMILY_IPV4 | G_SOCKET_FAMILY_IPV6 | G_SOCKET_FAMILY_OTHER

text \<open>
  A \<open>GstBuffer\<close>: its bytes, its presentation timestamp (\<open>GstClockTime\<close>, unsigned 64 bit)
  and whether \<open>gst_buffer_map\<close> succeeds on it.
\<close>

record GstBuffer =
  data :: bytes
  pts :: "64 word"
  mappable :: bool

text \<open>
  \<open>gst_buffer_resize (buf, 0, size)\<close> of GStreamer: the buffer keeps its first \<open>size\<close>
  bytes; a size outside the buffer fails the function's precondition check and leaves the
  buffer as it is.
\<close>

definition gst_buffer_resize :: "GstBuffer \<Rightarrow> int \<Rightarrow> GstBuffer" where
  "gst_buffer_resize b n =
     (if 0 \<le> n \<and> nat n \<le> length (data b) then b\<lparr>data := take (nat n) (data b)\<rparr> else b)"

text \<open>Bytes written from the start of a mapped region, the rest of the region untouched.\<close>

definition overwrite :: "bytes \<Rightarrow> bytes \<Rightarrow> bytes" where
  "overwrite new old = take (length old) new @ drop (length new) old"

section \<open>gstsrtclientsrc.c\<close>

record GstSrtClientSrcPrivate = effects +
  srt_sock :: SRTSOCKET
  srt_poll_id :: int
  uri :: "GstUri option"

text \<open>
  What the collaborators answer during one \<open>fill\<close>: the result of \<open>srt_epoll_wait\<close>, the
  result of \<open>srt_recvmsg\<close> and the bytes it stored, the clock reading and the element's
  base time.
\<close>

record fill_env =
  epoll_wait_ret :: int
  recv_len :: int
  recv_data :: bytes
  clock_time :: "64 word"
  base_time :: "64 word"

definition gst_srt_client_src_fill ::
  "fill_env \<Rightarrow> GstBuffer \<Rightarrow> GstSrtClientSrcPrivate \<Rightarrow>
     GstFlowReturn \<times> GstBuffer \<times> GstSrtClientSrcPrivate" where
  "gst_srt_client_src_fill env outbuf priv =
     (let p1 = emit [SrtEpollWait (srt_poll_id priv)] priv in
      if epoll_wait_ret env = -1 then (GST_FLOW_ERROR, outbuf, emit [GstDebug] p1)
      else if \<not> mappable outbuf then (GST_FLOW_ERROR, outbuf, emit [GstElementError] p1)
      else
        let p2 = emit [SrtRecvMsg (srt_sock priv)] p1;
            buf = outbuf\<lparr>data := overwrite (recv_data env) (data outbuf)\<rparr>
        in if recv_len env = SRT_ERROR then (GST_FLOW_ERROR, buf, emit [GstWarning] p2)
           else if recv_len env = 0 then (GST_FLOW_EOS, buf, p2)
           else (GST_FLOW_OK,
                 gst_buffer_resize (buf\<lparr>pts := clock_time env - base_time env\<rparr>) (recv_len env),
                 p2))"

text \<open>
  What the collaborators answer during \<open>start\<close>: the address family of the parsed host
  (\<open>None\<close> when \<open>g_inet_socket_address_new_from_string\<close> gives \<open>NULL\<close>), and the results of
  \<open>srt_socket\<close>, \<open>srt_epoll_create\<close>, \<open>srt_bind\<close>, \<open>srt_listen\<close>, \<open>srt_connect\<close> and
  whether \<open>g_thread_try_new\<close> set an error.
\<close>

record start_env =
  sockaddr_family :: "GSocketFamily option"
  socket_ret :: int
  epoll_create_ret :: int
  bind_ret :: int
  listen_ret :: int
  connect_ret :: int
  thread_error :: bool

definition gst_srt_client_src_start ::
  "start_env \<Rightarrow> GstSrtClientSrcPrivate \<Rightarrow> bool \<times> GstSrtClientSrcPrivate" where
  "gst_srt_client_src_start env priv =
     (if gst_uri_get_host (uri priv) = None \<or> gst_uri_get_port (uri priv) = GST_URI_NO_PORT
      then (False, emit [GstWarning] priv)
      else case sockaddr_family env of
        None \<Rightarrow> (False, emit [GstWarning] priv)
      | Some fam \<Rightarrow>
          let p1 = emit [SrtSocket] (priv\<lparr>srt_sock := socket_ret env\<rparr>) in
          if srt_sock p1 = SRT_ERROR then (False, emit [GstWarning] p1)
          else
            let p2 = emit [SrtEpollCreate] (p1\<lparr>srt_poll_id := epoll_create_ret env\<rparr>) in
            if srt_poll_id p2 = -1 then (True, emit [GstWarning, SrtClose (srt_sock p2)] p2)
            else
              let p3 = emit [SrtEpollAddUsock (srt_poll_id p2) (srt_sock p2)] p2 in
              if fam = G_SOCKET_FAMILY_OTHER
              then (False, emit [GstWarning, SrtClose (srt_sock p3)] p3)
              else
                let p4 = emit [SrtConnect (srt_sock p3)] p3 in
                if connect_ret env = SRT_ERROR
                then (False, emit [GstWarning, SrtClose (srt_sock p4)] p4)
                else (True, p4))"

definition gst_srt_client_src_stop ::
  "GstSrtClientSrcPrivate \<Rightarrow> bool \<times> GstSrtClientSrcPrivate" where
  "gst_srt_client_src_stop priv =
     (True, emit [SrtEpollRemoveUsock (srt_poll_id priv) (srt_sock priv),
                  SrtEpollRelease (srt_poll_id priv),
                  GstDebug,
                  SrtClose (srt_sock priv)] priv)"

text \<open>
  The URI handler. \<open>g_strcmp0\<close> is zero exactly on equal strings and treats \<open>NULL\<close> as a
  value different from every string. The second component of the result is what
  \<open>g_set_error\<close> stores through \<open>error\<close> when the caller passed a location.
\<close>

definition gst_srt_client_src_uri_get_uri ::
  "(GstUri option \<Rightarrow> string option) \<Rightarrow> GstSrtClientSrcPrivate \<Rightarrow> string option" where
  "gst_srt_client_src_uri_get_uri gst_uri_to_string priv = gst_uri_to_string (uri priv)"

definition gst_srt_client_src_uri_set_uri ::
  "(string \<Rightarrow> GstUri option) \<Rightarrow> string \<Rightarrow> GstSrtClientSrcPrivate \<Rightarrow>
     bool \<times> GError option \<times> GstSrtClientSrcPrivate" where
  "gst_srt_client_src_uri_set_uri gst_uri_from_string u priv =
     (let parsed_uri = gst_uri_from_string u in
      if gst_uri_get_scheme parsed_uri \<noteq> Some SRT_URI_SCHEME
      then (False, Some GST_URI_ERROR_BAD_URI, priv)
      else (True, None, priv\<lparr>uri := parsed_uri\<rparr>))"

section \<open>gstsrtserversink.c\<close>

text \<open>
  \<open>GstSRTServerSinkPrivate\<close>. The fields \<open>sock\<close>, \<open>srt_poll_id\<close> and \<open>uri\<close> carry the
  prefix \<open>sink_\<close> here, because \<open>GstSRTClient\<close> and the client source own those names;
  \<open>loop\<close> and \<open>context\<close> are \<open>main_loop\<close> and \<open>main_context\<close>. The four GLib handles are
  modelled by whether they are non-\<open>NULL\<close>. \<open>clients\<close> holds pointers into the heap.
\<close>

record GstSRTServerSinkPrivate = world +
  sink_sock :: SRTSOCKET
  sink_poll_id :: int
  poll_timeout :: int
  sink_uri :: "GstUri option"
  main_loop :: bool
  main_context :: bool
  server_source :: bool
  thread :: bool
  clients :: "nat list"
  queued_buffers :: "GstBuffer list"

text \<open>
  What the collaborators answer during one run of the accept callback: the result of
  \<open>srt_epoll_wait\<close>, \<open>srt_getlasterror\<close>, the socket \<open>srt_accept\<close> returns and the
  address \<open>g_inet_address_new_from_bytes\<close> builds from the peer (\<open>None\<close> for \<open>NULL\<close>).
\<close>

record accept_env =
  listen_wait_ret :: int
  lasterror :: int
  accept_ret :: SRTSOCKET
  accept_addr :: "GInetAddress option"

text \<open>
  \<open>idle_listen_callback\<close>. The boolean is the \<open>GSourceFunc\<close> result. When
  \<open>gst_srt_client_new\<close> returns \<open>NULL\<close> the callback reads \<open>srt_client->sock\<close> through it.
\<close>

definition idle_listen_callback ::
  "accept_env \<Rightarrow> GstSRTServerSinkPrivate \<Rightarrow> error + (bool \<times> GstSRTServerSinkPrivate)" where
  "idle_listen_callback env priv =
     (let p1 = emit [SrtEpollWait (sink_poll_id priv)] priv in
      if listen_wait_ret env = -1 then
        (if lasterror env \<noteq> SRT_ETIMEOUT
         then Inr (False, emit [GstDebug, SrtClearLastError] p1)
         else Inr (True, emit [SrtClearLastError] p1))
      else
        let p2 = emit [SrtAccept (sink_sock priv)] p1 in
        if accept_ret env = SRT_INVALID_SOCK
        then Inr (False, emit [GstWarning, SrtClearLastError] p2)
        else
          case gst_srt_client_new (accept_ret env) (accept_addr env) p2 of
            (None, p3) \<Rightarrow> Inl NullDeref
          | (Some c, p3) \<Rightarrow>
              (case heap p3 c of
                 None \<Rightarrow> Inl UseAfterFree
               | Some cl \<Rightarrow>
                   Inr (True, emit [SigClientAdded (sock cl) (addr cl), GstDebug]
                                (p3\<lparr>clients := clients p3 @ [c]\<rparr>))))"

text \<open>
  The accept unit on the GLib main loop. GLib's contract for a \<open>GSourceFunc\<close>: the source
  stays attached while the callback returns \<open>TRUE\<close> and is removed, never to be called
  again, once it returns \<open>FALSE\<close>. The state of the loop is whether the source is still
  attached; each element of the list is one occasion on which the loop would dispatch it.
\<close>

fun accept_unit ::
  "accept_env list \<Rightarrow> bool \<times> GstSRTServerSinkPrivate \<Rightarrow>
     error + (bool \<times> GstSRTServerSinkPrivate)" where
  "accept_unit [] st = Inr st"
| "accept_unit (e # es) (attached, priv) =
     (if \<not> attached then accept_unit es (attached, priv)
      else case idle_listen_callback e priv of
             Inl x \<Rightarrow> Inl x
           | Inr st' \<Rightarrow> accept_unit es st')"

text \<open>
  \<open>srt_send_buffer\<close>, inner loop: \<open>while (clients != NULL)\<close>. The cursor walks the list
  cells as they were when the cursor was read and is advanced before the send, so the
  removal of the current client does not disturb it. \<open>srt_sendmsg2\<close> is a parameter: the
  value it returns for a socket and a payload.
\<close>

fun send_to_clients ::
  "(SRTSOCKET \<Rightarrow> bytes \<Rightarrow> int) \<Rightarrow> bytes \<Rightarrow> nat list \<Rightarrow> GstSRTServerSinkPrivate \<Rightarrow>
     error + GstSRTServerSinkPrivate" where
  "send_to_clients srt_sendmsg2 d [] priv = Inr priv"
| "send_to_clients srt_sendmsg2 d (c # cs) priv =
     (case heap priv c of
        None \<Rightarrow> Inl UseAfterFree
      | Some cl \<Rightarrow>
          let p1 = emit [SrtSendMsg (sock cl) d] priv in
          if srt_sendmsg2 (sock cl) d = SRT_ERROR then
            (case gst_srt_client_unref c
                    (emit [GstWarning, SigClientRemoved (sock cl) (addr cl)]
                       (p1\<lparr>clients := remove1 c (clients p1)\<rparr>)) of
               Inl e \<Rightarrow> Inl e
             | Inr p2 \<Rightarrow> send_to_clients srt_sendmsg2 d cs p2)
          else send_to_clients srt_sendmsg2 d cs p1)"

text \<open>
  Outer loop: \<open>for (; buffers; buffers = buffers->next)\<close>. The local \<open>clients\<close> is read
  once, before the loop; the inner loop leaves it \<open>NULL\<close>, and a buffer that cannot be
  mapped is skipped by \<open>continue\<close> without touching it.
\<close>

fun send_buffers ::
  "(SRTSOCKET \<Rightarrow> bytes \<Rightarrow> int) \<Rightarrow> GstBuffer list \<Rightarrow> nat list \<Rightarrow> GstSRTServerSinkPrivate \<Rightarrow>
     error + GstSRTServerSinkPrivate" where
  "send_buffers srt_sendmsg2 [] cur priv = Inr priv"
| "send_buffers srt_sendmsg2 (b # bs) cur priv =
     (if \<not> mappable b then send_buffers srt_sendmsg2 bs cur (emit [GstElementError] priv)
      else case send_to_clients srt_sendmsg2 (data b) cur priv of
             Inl e \<Rightarrow> Inl e
           | Inr p1 \<Rightarrow> send_buffers srt_sendmsg2 bs [] p1)"

text \<open>
  \<open>srt_send_buffer\<close>: both lists are read before \<open>g_mutex_lock\<close>; after the loops the
  queue is freed, each buffer unreferenced, and the field reset, then \<open>g_mutex_unlock\<close>.
  The result \<open>FALSE\<close> removes the idle source that ran it.
\<close>

definition srt_send_buffer ::
  "(SRTSOCKET \<Rightarrow> bytes \<Rightarrow> int) \<Rightarrow> GstSRTServerSinkPrivate \<Rightarrow>
     error + (bool \<times> GstSRTServerSinkPrivate)" where
  "srt_send_buffer srt_sendmsg2 priv =
     (let buffers = queued_buffers priv;
          cur = clients priv
      in case send_buffers srt_sendmsg2 buffers cur (emit [MutexLock] priv) of
           Inl e \<Rightarrow> Inl e
         | Inr p1 \<Rightarrow>
             Inr (False,
                  emit [MutexUnlock]
                    ((emit (map (\<lambda>b. BufferUnref (data b)) (queued_buffers p1)) p1)
                       \<lparr>queued_buffers := []\<rparr>)))"

text \<open>\<open>gst_srt_server_sink_render\<close>: the append and the new idle source share one guard.\<close>

definition gst_srt_server_sink_render ::
  "GstBuffer \<Rightarrow> GstSRTServerSinkPrivate \<Rightarrow> GstFlowReturn \<times> GstSRTServerSinkPrivate" where
  "gst_srt_server_sink_render buffer priv =
     (let p1 = emit [MutexLock] priv;
          p2 = (if queued_buffers p1 = []
                then emit [IdleSourceAttach] (p1\<lparr>queued_buffers := queued_buffers p1 @ [buffer]\<rparr>)
                else p1)
      in (GST_FLOW_OK, emit [MutexUnlock] p2))"

definition gst_srt_server_sink_start ::
  "start_env \<Rightarrow> GstSRTServerSinkPrivate \<Rightarrow> bool \<times> GstSRTServerSinkPrivate" where
  "gst_srt_server_sink_start env priv =
     (if gst_uri_get_host (sink_uri priv) = None
         \<or> gst_uri_get_port (sink_uri priv) = GST_URI_NO_PORT
      then (False, emit [GstWarning] priv)
      else case sockaddr_family env of
        None \<Rightarrow> (False, emit [GstWarning] priv)
      | Some fam \<Rightarrow>
          let p1 = emit [SrtSocket] (priv\<lparr>sink_sock := socket_ret env\<rparr>) in
          if sink_sock p1 = SRT_ERROR then (False, emit [GstWarning] p1)
          else
            let p2 = emit [SrtSetSockOpt (sink_sock p1), SrtEpollCreate]
                       (p1\<lparr>sink_poll_id := epoll_create_ret env\<rparr>) in
            if sink_poll_id p2 = -1 then (True, emit [GstWarning, SrtClose (sink_sock p2)] p2)
            else
              let p3 = emit [SrtEpollAddUsock (sink_poll_id p2) (sink_sock p2)] p2 in
              if fam = G_SOCKET_FAMILY_OTHER
              then (False, emit [GstWarning, SrtClose (sink_sock p3)] p3)
              else
                let p4 = emit [SrtBind (sink_sock p3), GstInfo] p3 in
                if bind_ret env = SRT_ERROR
                then (False, emit [GstWarning, SrtClose (sink_sock p4)] p4)
                else
                  let p5 = emit [SrtListen (sink_sock p4)] p4 in
                  if listen_ret env = SRT_ERROR
                  then (False, emit [GstWarning, SrtClose (sink_sock p5)] p5)
                  else
                    let p6 = emit [MainContextNew, ServerSourceAttach, MainLoopNew,
                                   MutexLock, ThreadTryNew]
                               (p5\<lparr>main_context := True, server_source := True,
                                   main_loop := True, thread := \<not> thread_error env\<rparr>) in
                    if thread_error env then (False, emit [GstWarning, MutexUnlock] p6)
                    else (True, emit [MutexUnlock] p6))"

text \<open>
  \<open>gst_srt_server_sink_stop\<close>. \<open>g_list_foreach\<close> with \<open>srt_emit_client_removed\<close> reads each
  client; \<open>g_list_free_full\<close> unreferences each client and frees the cells, and the field
  \<open>clients\<close> keeps its value. Neither \<open>sock\<close> nor \<open>srt_poll_id\<close> is reset.
\<close>

fun emit_client_removed_all ::
  "nat list \<Rightarrow> GstSRTServerSinkPrivate \<Rightarrow> error + GstSRTServerSinkPrivate" where
  "emit_client_removed_all [] priv = Inr priv"
| "emit_client_removed_all (c # cs) priv =
     (case heap priv c of
        None \<Rightarrow> Inl UseAfterFree
      | Some cl \<Rightarrow> emit_client_removed_all cs (emit [SigClientRemoved (sock cl) (addr cl)] priv))"

fun unref_all :: "nat list \<Rightarrow> GstSRTServerSinkPrivate \<Rightarrow> error + GstSRTServerSinkPrivate" where
  "unref_all [] priv = Inr priv"
| "unref_all (c # cs) priv =
     (case gst_srt_client_unref c priv of Inl e \<Rightarrow> Inl e | Inr p1 \<Rightarrow> unref_all cs p1)"

definition gst_srt_server_sink_stop ::
  "GstSRTServerSinkPrivate \<Rightarrow> error + (bool \<times> GstSRTServerSinkPrivate)" where
  "gst_srt_server_sink_stop priv =
     (case emit_client_removed_all (clients priv) (emit [GstDebug] priv) of
        Inl e \<Rightarrow> Inl e
      | Inr p1 \<Rightarrow>
          (case unref_all (clients p1) p1 of
             Inl e \<Rightarrow> Inl e
           | Inr p2 \<Rightarrow>
               let p3 = emit [GstDebug,
                              SrtEpollRemoveUsock (sink_poll_id p2) (sink_sock p2),
                              SrtEpollRelease (sink_poll_id p2),
                              SrtClose (sink_sock p2)] p2;
                   p4 = (if main_loop p3
                         then emit [MainLoopQuit, ThreadJoin] (p3\<lparr>main_loop := False, thread := False\<rparr>)
                         else p3);
                   p5 = (if server_source p4
                         then emit [SourceDestroy] (p4\<lparr>server_source := False\<rparr>)
                         else p4)
               in Inr (True, p5\<lparr>main_context := False\<rparr>)))"

definition gst_srt_server_sink_uri_get_uri ::
  "(GstUri option \<Rightarrow> string option) \<Rightarrow> GstSRTServerSinkPrivate \<Rightarrow> string option" where
  "gst_srt_server_sink_uri_get_uri gst_uri_to_string priv = gst_uri_to_string (sink_uri priv)"

definition gst_srt_server_sink_uri_set_uri ::
  "(string \<Rightarrow> GstUri option) \<Rightarrow> string \<Rightarrow> GstSRTServerSinkPrivate \<Rightarrow>
     bool \<times> GError option \<times> GstSRTServerSinkPrivate" where
  "gst_srt_server_sink_uri_set_uri gst_uri_from_string u priv =
     (let parsed_uri = gst_uri_from_string u in
      if gst_uri_get_scheme parsed_uri \<noteq> Some SRT_URI_SCHEME
      then (False, Some GST_URI_ERROR_BAD_URI, priv)
      else (True, None, priv\<lparr>sink_uri := parsed_uri\<rparr>))"

section \<open>Reading a trace\<close>

text \<open>The payloads sent, the removal notifications and the scheduled dispatch tasks.\<close>

primrec sends :: "event list \<Rightarrow> (SRTSOCKET \<times> bytes) list" where
  "sends [] = []"
| "sends (e # es) = (case e of SrtSendMsg s d \<Rightarrow> (s, d) # sends es | _ \<Rightarrow> sends es)"

primrec removals :: "event list \<Rightarrow> (SRTSOCKET \<times> GInetAddress) list" where
  "removals [] = []"
| "removals (e # es) = (case e of SigClientRemoved s a \<Rightarrow> (s, a) # removals es | _ \<Rightarrow> removals es)"

primrec send_while_locked :: "bool \<Rightarrow> event list \<Rightarrow> bool" where
  "send_while_locked held [] = False"
| "send_while_locked held (e # es) =
     (case e of
        MutexLock \<Rightarrow> send_while_locked True es
      | MutexUnlock \<Rightarrow> send_while_locked False es
      | SrtSendMsg s d \<Rightarrow> held \<or> send_while_locked held es
      | _ \<Rightarrow> send_while_locked held es)"

section \<open>Concrete states and collaborators\<close>

text \<open>The default URIs of the two elements, as \<open>gst_uri_from_string\<close> parses them.\<close>

definition client_default_uri :: GstUri where
  "client_default_uri = \<lparr>scheme = Some ''srt'', host = Some ''127.0.0.1'', port = 7000\<rparr>"

definition server_default_uri :: GstUri where
  "server_default_uri = \<lparr>scheme = Some ''srt'', host = Some ''127.0.0.1'', port = 7001\<rparr>"

text \<open>A stand-in for the URI parser, defined on the three strings used below.\<close>

definition test_uri_from_string :: "string \<Rightarrow> GstUri option" where
  "test_uri_from_string u =
     (if u = ''srt://127.0.0.1:7000'' then Some client_default_uri
      else if u = ''srt://127.0.0.1:7001'' then Some server_default_uri
      else if u = ''http://example.org:80''
      then Some \<lparr>scheme = Some ''http'', host = Some ''example.org'', port = 80\<rparr>
      else None)"

text \<open>A client source after \<open>init\<close> and a successful \<open>start\<close> (socket 3, poll id 1).\<close>

definition src_started :: GstSrtClientSrcPrivate where
  "src_started = \<lparr>trace = [], srt_sock = 3, srt_poll_id = 1, uri = Some client_default_uri\<rparr>"

text \<open>A server sink after \<open>init\<close>: the private structure is zero-filled but for the URI and
  the poll timeout.\<close>

definition sink_init :: GstSRTServerSinkPrivate where
  "sink_init = \<lparr>trace = [], heap = (\<lambda>_. None), next_ptr = 0,
     sink_sock = 0, sink_poll_id = 0, poll_timeout = -1, sink_uri = Some server_default_uri,
     main_loop = False, main_context = False, server_source = False, thread = False,
     clients = [], queued_buffers = []\<rparr>"

text \<open>A started server sink (socket 7, poll id 2) with no peer yet.\<close>

definition sink_started :: GstSRTServerSinkPrivate where
  "sink_started = sink_init\<lparr>sink_sock := 7, sink_poll_id := 2,
     main_loop := True, main_context := True, server_source := True, thread := True\<rparr>"

text \<open>The same sink serving three peers on sockets 11, 12 and 13.\<close>

definition sink_serving :: GstSRTServerSinkPrivate where
  "sink_serving = sink_started\<lparr>
     heap := (\<lambda>_. None)(0 \<mapsto> \<lparr>sock = 11, addr = [10, 0, 0, 1], ref_count = 1\<rparr>,
                          1 \<mapsto> \<lparr>sock = 12, addr = [10, 0, 0, 2], ref_count = 1\<rparr>,
                          2 \<mapsto> \<lparr>sock = 13, addr = [10, 0, 0, 3], ref_count = 1\<rparr>),
     next_ptr := 3,
     clients := [0, 1, 2]\<rparr>"

definition buf :: "bytes \<Rightarrow> GstBuffer" where
  "buf d = \<lparr>data = d, pts = 0, mappable = True\<rparr>"

text \<open>The collaborators' answers for one \<open>fill\<close>: clock at 10, base time 3.\<close>

definition fill_env_of :: "int \<Rightarrow> int \<Rightarrow> bytes \<Rightarrow> fill_env" where
  "fill_env_of w r d = \<lparr>epoll_wait_ret = w, recv_len = r, recv_data = d, clock_time = 10, base_time = 3\<rparr>"

text \<open>A transport on which every send succeeds: \<open>srt_sendmsg2\<close> returns the size sent.\<close>

definition send_ok :: "SRTSOCKET \<Rightarrow> bytes \<Rightarrow> int" where
  "send_ok s d = int (length d)"

text \<open>A transport on which the peer on socket 12 has gone away.\<close>

definition send_fails_12 :: "SRTSOCKET \<Rightarrow> bytes \<Rightarrow> int" where
  "send_fails_12 s d = (if s = 12 then SRT_ERROR else int (length d))"

text \<open>
  The serving sink after the producer submitted a first buffer (one dispatch task is
  outstanding), and after it then submitted three more before the task ran.
\<close>

definition sink_busy :: GstSRTServerSinkPrivate where
  "sink_busy = snd (gst_srt_server_sink_render (buf [0]) sink_serving)"

definition sink_busy3 :: GstSRTServerSinkPrivate where
  "sink_busy3 =
     snd (gst_srt_server_sink_render (buf [3])
       (snd (gst_srt_server_sink_render (buf [2])
         (snd (gst_srt_server_sink_render (buf [1]) sink_busy)))))"

text \<open>The trace after one run of the dispatch task, when it returns.\<close>

definition dispatch_trace ::
  "(SRTSOCKET \<Rightarrow> bytes \<Rightarrow> int) \<Rightarrow> GstSRTServerSinkPrivate \<Rightarrow> event list option" where
  "dispatch_trace srt_sendmsg2 priv =
     (case srt_send_buffer srt_sendmsg2 priv of Inl e \<Rightarrow> None | Inr (r, p) \<Rightarrow> Some (trace p))"

text \<open>Answers of the collaborators to the accept callback: a failed accept, a new peer.\<close>

definition accept_failed :: accept_env where
  "accept_failed = \<lparr>listen_wait_ret = 1, lasterror = 0, accept_ret = -1, accept_addr = None\<rparr>"

definition accept_peer :: accept_env where
  "accept_peer = \<lparr>listen_wait_ret = 1, lasterror = 0, accept_ret = 21,
                   accept_addr = Some [10, 0, 0, 9]\<rparr>"

text \<open>Answers of the collaborators to \<open>start\<close>: all well but for \<open>srt_epoll_create\<close>; all well
  but for the thread.\<close>

definition env_epoll_fails :: start_env where
  "env_epoll_fails = \<lparr>sockaddr_family = Some G_SOCKET_FAMILY_IPV4, socket_ret = 7,
     epoll_create_ret = -1, bind_ret = 0, listen_ret = 0, connect_ret = 0,
     thread_error = False\<rparr>"

definition env_thread_fails :: start_env where
  "env_thread_fails = \<lparr>sockaddr_family = Some G_SOCKET_FAMILY_IPV4, socket_ret = 7,
     epoll_create_ret = 2, bind_ret = 0, listen_ret = 0, connect_ret = 0,
     thread_error = True\<rparr>"

text \<open>A client source after \<open>init\<close>.\<close>

definition src_init :: GstSrtClientSrcPrivate where
  "src_init = \<lparr>trace = [], srt_sock = 0, srt_poll_id = 0, uri = Some client_default_uri\<rparr>"

text \<open>The events a later state has added to the trace of an earlier one.\<close>

definition new_events :: "'a effects_scheme \<Rightarrow> 'b effects_scheme \<Rightarrow> event list" where
  "new_events old new = drop (length (trace old)) (trace new)"

text \<open>
  What the inner loop of \<open>srt_send_buffer\<close> does for one live client, as a trace: the send
  and, if it failed, the warning, the notification and the close that the last unref
  issues.
\<close>

definition client_events :: "(SRTSOCKET \<Rightarrow> bytes \<Rightarrow> int) \<Rightarrow> bytes \<Rightarrow> GstSRTClient \<Rightarrow> event list" where
  "client_events srt_sendmsg2 d cl =
     SrtSendMsg (sock cl) d #
       (if srt_sendmsg2 (sock cl) d = SRT_ERROR
        then [GstWarning, SigClientRemoved (sock cl) (addr cl)] @
             (if ref_count cl - 1 > 0 then [] else [SrtClose (sock cl)])
        else [])"

section \<open>Properties of the session reference count\<close>

lemma run_dead: "heap w p = None \<Longrightarrow> run_client_ops p os w = Inr w' \<Longrightarrow> os = []"
  by (induction p os w rule: run_client_ops.induct)
     (auto simp: gst_srt_client_ref_def gst_srt_client_unref_def)

lemma run_live:
  "heap w p = Some c \<Longrightarrow> run_client_ops p os w = Inr w' \<Longrightarrow>
     (case heap w' p of
        None \<Rightarrow> trace w' = trace w @ [SrtClose (sock c)] \<and>
          ref_count c + of_nat (count_list os Ref) - of_nat (count_list os Unref) = 0
      | Some c' \<Rightarrow> trace w' = trace w \<and> sock c' = sock c \<and> addr c' = addr c \<and>
          ref_count c' = ref_count c + of_nat (count_list os Ref) - of_nat (count_list os Unref))"
proof (induction p os w arbitrary: c rule: run_client_ops.induct)
  case (1 p w)
  then show ?case by simp
next
  case (2 p os w)
  let ?c = "c\<lparr>ref_count := ref_count c + 1\<rparr>"
  let ?w = "w\<lparr>heap := (heap w)(p \<mapsto> ?c)\<rparr>"
  from 2(2) have r: "gst_srt_client_ref p w = Inr ?w"
    by (simp add: gst_srt_client_ref_def)
  with 2(3) have "run_client_ops p os ?w = Inr w'" by simp
  from 2(1)[OF r _ this, of ?c] show ?case
    by (auto split: option.splits simp: algebra_simps)
next
  case (3 p os w)
  show ?case
  proof (cases "ref_count c - 1 > 0")
    case True
    let ?c = "c\<lparr>ref_count := ref_count c - 1\<rparr>"
    let ?w = "w\<lparr>heap := (heap w)(p \<mapsto> ?c)\<rparr>"
    from True 3(2) have r: "gst_srt_client_unref p w = Inr ?w"
      by (simp add: gst_srt_client_unref_def)
    with 3(3) have "run_client_ops p os ?w = Inr w'" by simp
    from 3(1)[OF r _ this, of ?c] show ?thesis
      by (auto split: option.splits simp: algebra_simps)
  next
    case False
    then have z: "ref_count c - 1 = 0"
      by (simp add: word_greater_zero_iff)
    from False 3 have r: "run_client_ops p os (emit [SrtClose (sock c)] (w\<lparr>heap := (heap w)(p := None)\<rparr>)) = Inr w'"
      by (simp add: gst_srt_client_unref_def)
    then have "os = []"
      using run_dead[of "emit [SrtClose (sock c)] (w\<lparr>heap := (heap w)(p := None)\<rparr>)" p os w']
      by (simp add: emit_def)
    with r z show ?thesis by (auto simp: emit_def)
  qed
qed

lemma run_freed:
  "heap w p = None \<Longrightarrow> os \<noteq> [] \<Longrightarrow> run_client_ops p os w = Inl UseAfterFree"
  by (induction p os w rule: run_client_ops.induct)
     (auto simp: gst_srt_client_ref_def gst_srt_client_unref_def)

lemma count_after_zero: "count_after 0 os = (if os = [] then Some 0 else None)"
proof (cases os)
  case Nil
  then show ?thesis by simp
next
  case (Cons x xs)
  then show ?thesis by (cases x) simp_all
qed

lemma word32_of_nat_pos: "0 < m \<Longrightarrow> m < 2 ^ 32 \<Longrightarrow> (0 :: 32 word) < of_nat m"
  using of_nat_neq_0[of m, where 'a = 32] by (simp add: word_greater_zero_iff)

lemma run_counts:
  "heap w p = Some c \<Longrightarrow> ref_count c = of_nat n \<Longrightarrow> 0 < n \<Longrightarrow> n + length os < 2 ^ 32 \<Longrightarrow>
     (case count_after n os of
        None \<Rightarrow> run_client_ops p os w = Inl UseAfterFree
      | Some 0 \<Rightarrow> (\<exists>w'. run_client_ops p os w = Inr w' \<and> heap w' p = None \<and>
                        trace w' = trace w @ [SrtClose (sock c)])
      | Some (Suc k) \<Rightarrow> (\<exists>w'. run_client_ops p os w = Inr w' \<and>
                        heap w' p = Some (c\<lparr>ref_count := of_nat (Suc k)\<rparr>) \<and>
                        trace w' = trace w))"
proof (induction os arbitrary: w c n)
  case Nil
  then show ?case by (cases n) auto
next
  case (Cons x os)
  show ?case
  proof (cases x)
    case Ref
    let ?c = "c\<lparr>ref_count := ref_count c + 1\<rparr>"
    let ?w = "w\<lparr>heap := (heap w)(p \<mapsto> ?c)\<rparr>"
    have r: "run_client_ops p (x # os) w = run_client_ops p os ?w"
      using Ref Cons.prems(1) by (simp add: gst_srt_client_ref_def)
    have ca: "count_after n (x # os) = count_after (Suc n) os"
      using Ref Cons.prems(3) by simp
    have "heap ?w p = Some ?c" "ref_count ?c = of_nat (Suc n)" "0 < Suc n"
      "Suc n + length os < 2 ^ 32"
      using Cons.prems by simp_all
    from Cons.IH[OF this] show ?thesis
      unfolding r ca by (auto split: option.splits nat.splits)
  next
    case Unref
    show ?thesis
    proof (cases "n = 1")
      case True
      let ?w = "emit [SrtClose (sock c)] (w\<lparr>heap := (heap w)(p := None)\<rparr>)"
      have u: "gst_srt_client_unref p w = Inr ?w"
        using True Cons.prems(1,2) by (simp add: gst_srt_client_unref_def)
      have d: "heap ?w p = None" by (simp add: emit_def)
      have ca: "count_after n (x # os) = (if os = [] then Some 0 else None)"
        using Unref True by (simp add: count_after_zero)
      show ?thesis
      proof (cases "os = []")
        case True
        then show ?thesis using u ca Unref by (simp add: emit_def)
      next
        case False
        from run_freed[OF d False] show ?thesis using u ca Unref False by simp
      qed
    next
      case False
      with Cons.prems(3) have n1: "0 < n - 1" by simp
      have lt: "n - 1 < 2 ^ 32" using Cons.prems(4) by simp
      have eq: "ref_count c - 1 = of_nat (n - 1)"
        using Cons.prems(2,3) by (simp add: of_nat_diff)
      let ?c = "c\<lparr>ref_count := ref_count c - 1\<rparr>"
      let ?w = "w\<lparr>heap := (heap w)(p \<mapsto> ?c)\<rparr>"
      have "0 < ref_count c - 1"
        unfolding eq by (rule word32_of_nat_pos[OF n1 lt])
      then have r: "run_client_ops p (x # os) w = run_client_ops p os ?w"
        using Unref Cons.prems(1) by (simp add: gst_srt_client_unref_def)
      have ca: "count_after n (x # os) = count_after (n - 1) os"
        using Unref Cons.prems(3) by simp
      have "heap ?w p = Some ?c" "ref_count ?c = of_nat (n - 1)"
        using eq by simp_all
      moreover have "n - 1 + length os < 2 ^ 32" using Cons.prems(4) by simp
      ultimately show ?thesis
        using Cons.IH[of ?w ?c "n - 1"] n1
        unfolding r ca by (auto split: option.splits nat.splits)
    qed
  qed
qed

text \<open>
  C9. A session made by \<open>gst_srt_client_new\<close> starts with reference count 1. For any
  sequence of ref and unref calls on it (fewer than \<open>2^32 - 1\<close>, so that the 32-bit
  counter does not wrap), with the count kept on natural numbers by \<open>count_after\<close>, each
  unref taking one off:
  \<^item> while the count is positive the calls return, the object is alive with exactly that
    count, and no \<open>srt_close\<close> has been issued;
  \<^item> when the last call brings the count to zero the calls return, the object is freed
    and exactly one \<open>srt_close\<close> of its socket has been issued, by that last unref;
  \<^item> a call after the count reached zero is a fault on a freed object, so nothing closes
    the handle a second time.
  For every state, an unref that finds the count at 1 closes the socket and frees the
  session, and an unref that finds any other count only decrements it. Without the bound
  on the number of calls: whenever the calls return, the count is 1 plus the refs minus
  the unrefs in 32-bit arithmetic, and the socket has been closed, once, exactly if the
  object was freed.
\<close>

theorem gst_srt_client_refcount:
  assumes "s \<noteq> -1"
  shows "\<exists>p w0. gst_srt_client_new s (Some a) w = (Some p, w0) \<and>
           heap w0 p = Some \<lparr>sock = s, addr = a, ref_count = 1\<rparr> \<and> trace w0 = trace w \<and>
           (\<forall>w'. run_client_ops p os w0 = Inr w' \<longrightarrow>
              (case heap w' p of
                 None \<Rightarrow> trace w' = trace w @ [SrtClose s] \<and>
                   (1 :: 32 word) + of_nat (count_list os Ref) - of_nat (count_list os Unref) = 0
               | Some c' \<Rightarrow> trace w' = trace w \<and> sock c' = s \<and>
                   ref_count c' = 1 + of_nat (count_list os Ref) - of_nat (count_list os Unref))) \<and>
           (length os < 2 ^ 32 - 1 \<longrightarrow>
              (case count_after 1 os of
                 None \<Rightarrow> run_client_ops p os w0 = Inl UseAfterFree
               | Some 0 \<Rightarrow>
                   (\<exists>w'. run_client_ops p os w0 = Inr w' \<and> heap w' p = None \<and>
                         trace w' = trace w @ [SrtClose s])
               | Some (Suc k) \<Rightarrow>
                   (\<exists>w'. run_client_ops p os w0 = Inr w' \<and>
                         heap w' p = Some \<lparr>sock = s, addr = a, ref_count = of_nat (Suc k)\<rparr> \<and>
                         trace w' = trace w))) \<and>
           (\<forall>v c. heap v p = Some c \<longrightarrow>
              (ref_count c = 1 \<longrightarrow>
                 gst_srt_client_unref p v =
                   Inr (emit [SrtClose (sock c)] (v\<lparr>heap := (heap v)(p := None)\<rparr>))) \<and>
              (ref_count c \<noteq> 1 \<longrightarrow>
                 gst_srt_client_unref p v =
                   Inr (v\<lparr>heap := (heap v)(p \<mapsto> c\<lparr>ref_count := ref_count c - 1\<rparr>)\<rparr>)))"
proof -
  let ?c = "\<lparr>sock = s, addr = a, ref_count = 1\<rparr>"
  let ?p = "next_ptr w"
  let ?w0 = "w\<lparr>heap := (heap w)(?p \<mapsto> ?c), next_ptr := Suc ?p\<rparr>"
  have n: "gst_srt_client_new s (Some a) w = (Some ?p, ?w0)"
    using assms by (simp add: gst_srt_client_new_def)
  have h: "heap ?w0 ?p = Some ?c" by simp
  have t: "trace ?w0 = trace w" by simp
  have a: "\<forall>w'. run_client_ops ?p os ?w0 = Inr w' \<longrightarrow>
              (case heap w' ?p of
                 None \<Rightarrow> trace w' = trace w @ [SrtClose s] \<and>
                   (1 :: 32 word) + of_nat (count_list os Ref) - of_nat (count_list os Unref) = 0
               | Some c' \<Rightarrow> trace w' = trace w \<and> sock c' = s \<and>
                   ref_count c' = 1 + of_nat (count_list os Ref) - of_nat (count_list os Unref))"
  proof (intro allI impI)
    fix w' assume "run_client_ops ?p os ?w0 = Inr w'"
    from run_live[OF h this]
    show "case heap w' ?p of
                 None \<Rightarrow> trace w' = trace w @ [SrtClose s] \<and>
                   (1 :: 32 word) + of_nat (count_list os Ref) - of_nat (count_list os Unref) = 0
               | Some c' \<Rightarrow> trace w' = trace w \<and> sock c' = s \<and>
                   ref_count c' = 1 + of_nat (count_list os Ref) - of_nat (count_list os Unref)"
      by (auto split: option.splits)
  qed
  have b: "length os < 2 ^ 32 - 1 \<longrightarrow>
              (case count_after 1 os of
                 None \<Rightarrow> run_client_ops ?p os ?w0 = Inl UseAfterFree
               | Some 0 \<Rightarrow>
                   (\<exists>w'. run_client_ops ?p os ?w0 = Inr w' \<and> heap w' ?p = None \<and>
                         trace w' = trace w @ [SrtClose s])
               | Some (Suc k) \<Rightarrow>
                   (\<exists>w'. run_client_ops ?p os ?w0 = Inr w' \<and>
                         heap w' ?p = Some \<lparr>sock = s, addr = a, ref_count = of_nat (Suc k)\<rparr> \<and>
                         trace w' = trace w))"
  proof
    assume "length os < 2 ^ 32 - 1"
    then have l: "1 + length os < 2 ^ 32" by simp
    have r: "ref_count ?c = of_nat 1" by simp
    from run_counts[OF h r _ l]
    show "case count_after 1 os of
                 None \<Rightarrow> run_client_ops ?p os ?w0 = Inl UseAfterFree
               | Some 0 \<Rightarrow>
                   (\<exists>w'. run_client_ops ?p os ?w0 = Inr w' \<and> heap w' ?p = None \<and>
                         trace w' = trace w @ [SrtClose s])
               | Some (Suc k) \<Rightarrow>
                   (\<exists>w'. run_client_ops ?p os ?w0 = Inr w' \<and>
                         heap w' ?p = Some \<lparr>sock = s, addr = a, ref_count = of_nat (Suc k)\<rparr> \<and>
                         trace w' = trace w)"
      by (auto split: option.splits nat.splits)
  qed
  have c: "\<forall>v c. heap v ?p = Some c \<longrightarrow>
              (ref_count c = 1 \<longrightarrow>
                 gst_srt_client_unref ?p v =
                   Inr (emit [SrtClose (sock c)] (v\<lparr>heap := (heap v)(?p := None)\<rparr>))) \<and>
              (ref_count c \<noteq> 1 \<longrightarrow>
                 gst_srt_client_unref ?p v =
                   Inr (v\<lparr>heap := (heap v)(?p \<mapsto> c\<lparr>ref_count := ref_count c - 1\<rparr>)\<rparr>))"
    by (simp add: gst_srt_client_unref_def word_greater_zero_iff)
  from n h t a b c show ?thesis by blast
qed

theorem gst_srt_client_refcount_witness:
  "(5::int) \<noteq> -1 \<and> length [Ref, Unref, Unref] < 2 ^ 32 - 1 \<and>
   count_after 1 [Ref, Unref] = Some 1 \<and>
   count_after 1 [Ref, Unref, Unref] = Some 0 \<and>
   count_after 1 [Unref, Unref] = None \<and>
   (\<exists>w0 w'. gst_srt_client_new 5 (Some [127, 0, 0, 1]) world0 = (Some 0, w0) \<and>
      heap w0 0 = Some \<lparr>sock = 5, addr = [127, 0, 0, 1], ref_count = 1\<rparr> \<and>
      run_client_ops 0 [Ref, Unref] w0 = Inr w' \<and>
      heap w' 0 = Some \<lparr>sock = 5, addr = [127, 0, 0, 1], ref_count = 1\<rparr> \<and> trace w' = [])
 \<and> (\<exists>w0 w'. gst_srt_client_new 5 (Some [127, 0, 0, 1]) world0 = (Some 0, w0) \<and>
      run_client_ops 0 [Ref, Unref, Unref] w0 = Inr w' \<and> heap w' 0 = None \<and>
      trace w' = [SrtClose 5])
 \<and> (\<exists>w0. gst_srt_client_new 5 (Some [127, 0, 0, 1]) world0 = (Some 0, w0) \<and>
      run_client_ops 0 [Unref, Unref] w0 = Inl UseAfterFree)"
  using gst_srt_client_refcount [of 5 "[127, 0, 0, 1]" world0 "[Ref, Unref, Unref]"]
        gst_srt_client_refcount [of 5 "[127, 0, 0, 1]" world0 "[Unref, Unref]"]
  by (simp add: gst_srt_client_new_def world0_def gst_srt_client_ref_def
      gst_srt_client_unref_def emit_def)

section \<open>Properties of the client source and of the URI handlers\<close>

text \<open>
  C7. The flow result of \<open>fill\<close>. A failed readiness wait gives \<open>GST_FLOW_ERROR\<close>. Once the
  wait has succeeded and the buffer is mapped, the result follows the value of
  \<open>srt_recvmsg\<close>: negative gives \<open>GST_FLOW_ERROR\<close>, zero gives \<open>GST_FLOW_EOS\<close> (which is
  not the error status), positive gives \<open>GST_FLOW_OK\<close>. The receive result ranges over
  what \<open>srt_recvmsg\<close> can return: a byte count or \<open>SRT_ERROR\<close>, the only negative value.
\<close>

theorem gst_srt_client_src_fill_flow:
  assumes "SRT_ERROR \<le> recv_len env"
  shows "(epoll_wait_ret env = -1 \<longrightarrow>
            fst (gst_srt_client_src_fill env outbuf priv) = GST_FLOW_ERROR) \<and>
         (epoll_wait_ret env \<noteq> -1 \<and> mappable outbuf \<longrightarrow>
            (recv_len env < 0 \<longrightarrow> fst (gst_srt_client_src_fill env outbuf priv) = GST_FLOW_ERROR) \<and>
            (recv_len env = 0 \<longrightarrow> fst (gst_srt_client_src_fill env outbuf priv) = GST_FLOW_EOS) \<and>
            (0 < recv_len env \<longrightarrow> fst (gst_srt_client_src_fill env outbuf priv) = GST_FLOW_OK))"
  using assms by (auto simp: gst_srt_client_src_fill_def SRT_ERROR_def Let_def)

theorem gst_srt_client_src_fill_flow_witness:
  "fst (gst_srt_client_src_fill (fill_env_of (-1) 2 [1, 2]) (buf [0, 0, 0, 0]) src_started) = GST_FLOW_ERROR \<and>
   fst (gst_srt_client_src_fill (fill_env_of 1 (-1) []) (buf [0, 0, 0, 0]) src_started) = GST_FLOW_ERROR \<and>
   fst (gst_srt_client_src_fill (fill_env_of 1 0 []) (buf [0, 0, 0, 0]) src_started) = GST_FLOW_EOS \<and>
   fst (gst_srt_client_src_fill (fill_env_of 1 2 [1, 2]) (buf [0, 0, 0, 0]) src_started) = GST_FLOW_OK"
  using gst_srt_client_src_fill_flow [of "fill_env_of (-1) 2 [1, 2]" "buf [0, 0, 0, 0]" src_started]
        gst_srt_client_src_fill_flow [of "fill_env_of 1 (-1) []" "buf [0, 0, 0, 0]" src_started]
        gst_srt_client_src_fill_flow [of "fill_env_of 1 0 []" "buf [0, 0, 0, 0]" src_started]
        gst_srt_client_src_fill_flow [of "fill_env_of 1 2 [1, 2]" "buf [0, 0, 0, 0]" src_started]
  by (simp add: fill_env_of_def buf_def SRT_ERROR_def)

text \<open>
  C8, as stated, fails: with the clock at 10 and a base time of 3, a successful receive
  of two bytes leaves a timestamp that is not the clock time.
\<close>

theorem fill_pts_counterexample:
  "fst (gst_srt_client_src_fill (fill_env_of 1 2 [1, 2]) (buf [0, 0, 0, 0]) src_started) = GST_FLOW_OK \<and>
   pts (fst (snd (gst_srt_client_src_fill (fill_env_of 1 2 [1, 2]) (buf [0, 0, 0, 0]) src_started)))
     \<noteq> clock_time (fill_env_of 1 2 [1, 2])"
  by (simp add: gst_srt_client_src_fill_def fill_env_of_def buf_def src_started_def SRT_ERROR_def
      Let_def gst_buffer_resize_def overwrite_def)

text \<open>
  C8, amended. On a successful receive of \<open>n > 0\<close> bytes (the transport stored \<open>n\<close> bytes,
  no more than the buffer holds), \<open>fill\<close> returns \<open>GST_FLOW_OK\<close>, stamps the buffer with
  the clock time minus the element's base time (the running time, in wrapping unsigned
  64-bit arithmetic), and resizes it to exactly the \<open>n\<close> bytes received.
\<close>

theorem gst_srt_client_src_fill_stamp_and_trim:
  assumes "epoll_wait_ret env \<noteq> -1" and "mappable outbuf"
    and "0 < recv_len env" and "recv_len env = int (length (recv_data env))"
    and "length (recv_data env) \<le> length (data outbuf)"
  shows "\<exists>out p. gst_srt_client_src_fill env outbuf priv = (GST_FLOW_OK, out, p) \<and>
           pts out = clock_time env - base_time env \<and>
           data out = recv_data env \<and>
           int (length (data out)) = recv_len env"
  using assms
  by (auto simp: gst_srt_client_src_fill_def SRT_ERROR_def Let_def gst_buffer_resize_def overwrite_def)

theorem gst_srt_client_src_fill_stamp_and_trim_witness:
  "gst_srt_client_src_fill (fill_env_of 1 2 [1, 2]) (buf [0, 0, 0, 0]) src_started
     = (GST_FLOW_OK, \<lparr>data = [1, 2], pts = 7, mappable = True\<rparr>,
        src_started\<lparr>trace := [SrtEpollWait 1, SrtRecvMsg 3]\<rparr>)"
  using gst_srt_client_src_fill_stamp_and_trim [of "fill_env_of 1 2 [1, 2]" "buf [0, 0, 0, 0]" src_started]
  by (auto simp: gst_srt_client_src_fill_def fill_env_of_def buf_def src_started_def SRT_ERROR_def
      Let_def gst_buffer_resize_def overwrite_def emit_def)

text \<open>
  C10. For both URI handlers, and any parser: when the scheme of the parsed string is not
  \<open>srt\<close> (an unparseable string has no scheme at all), \<open>set_uri\<close> returns \<open>FALSE\<close>, sets
  the bad-URI error, and leaves the element as it was, so \<open>get_uri\<close> answers as before.
\<close>

theorem uri_set_uri_rejects_foreign_scheme:
  assumes "gst_uri_get_scheme (gst_uri_from_string u) \<noteq> Some ''srt''"
  shows "gst_srt_server_sink_uri_set_uri gst_uri_from_string u sink
           = (False, Some GST_URI_ERROR_BAD_URI, sink) \<and>
         gst_srt_server_sink_uri_get_uri gst_uri_to_string
             (snd (snd (gst_srt_server_sink_uri_set_uri gst_uri_from_string u sink)))
           = gst_srt_server_sink_uri_get_uri gst_uri_to_string sink \<and>
         gst_srt_client_src_uri_set_uri gst_uri_from_string u src
           = (False, Some GST_URI_ERROR_BAD_URI, src) \<and>
         gst_srt_client_src_uri_get_uri gst_uri_to_string
             (snd (snd (gst_srt_client_src_uri_set_uri gst_uri_from_string u src)))
           = gst_srt_client_src_uri_get_uri gst_uri_to_string src"
  using assms
  by (simp add: gst_srt_server_sink_uri_set_uri_def gst_srt_client_src_uri_set_uri_def
      SRT_URI_SCHEME_def)

theorem uri_set_uri_rejects_foreign_scheme_witness:
  "gst_uri_get_scheme (test_uri_from_string ''http://example.org:80'') \<noteq> Some ''srt'' \<and>
   gst_uri_get_scheme (test_uri_from_string ''not a uri'') \<noteq> Some ''srt'' \<and>
   gst_srt_server_sink_uri_set_uri test_uri_from_string ''http://example.org:80'' sink_init
     = (False, Some GST_URI_ERROR_BAD_URI, sink_init) \<and>
   gst_srt_client_src_uri_set_uri test_uri_from_string ''not a uri'' src_started
     = (False, Some GST_URI_ERROR_BAD_URI, src_started) \<and>
   sink_uri (snd (snd (gst_srt_server_sink_uri_set_uri test_uri_from_string ''srt://127.0.0.1:7000'' sink_init)))
     = Some client_default_uri"
proof -
  have a: "gst_uri_get_scheme (test_uri_from_string ''http://example.org:80'') \<noteq> Some ''srt''"
    by (simp add: test_uri_from_string_def gst_uri_get_scheme_def)
  have b: "gst_uri_get_scheme (test_uri_from_string ''not a uri'') \<noteq> Some ''srt''"
    by (simp add: test_uri_from_string_def gst_uri_get_scheme_def)
  have c: "sink_uri (snd (snd (gst_srt_server_sink_uri_set_uri test_uri_from_string ''srt://127.0.0.1:7000'' sink_init)))
     = Some client_default_uri"
    by (simp add: gst_srt_server_sink_uri_set_uri_def test_uri_from_string_def gst_uri_get_scheme_def
        client_default_uri_def SRT_URI_SCHEME_def)
  from a b c
    uri_set_uri_rejects_foreign_scheme
      [of test_uri_from_string "''http://example.org:80''" sink_init "\<lambda>_. None" src_started]
    uri_set_uri_rejects_foreign_scheme
      [of test_uri_from_string "''not a uri''" sink_init "\<lambda>_. None" src_started]
  show ?thesis by simp
qed

section \<open>Properties of the server sink\<close>

subsection \<open>Reading traces\<close>

lemma sends_append: "sends (xs @ ys) = sends xs @ sends ys"
  by (induction xs) (auto split: event.splits)

lemma removals_append: "removals (xs @ ys) = removals xs @ removals ys"
  by (induction xs) (auto split: event.splits)

lemma locked_sends:
  "MutexUnlock \<notin> set mid \<Longrightarrow>
     send_while_locked True (mid @ [MutexUnlock]) = (sends mid \<noteq> [])"
  by (induction mid) (auto split: event.splits)

lemma sends_client_events: "sends (client_events f d cl) = [(sock cl, d)]"
  by (simp add: client_events_def)

lemma removals_client_events:
  "removals (client_events f d cl) = (if f (sock cl) d = SRT_ERROR then [(sock cl, addr cl)] else [])"
  by (simp add: client_events_def)

lemma element_error_client_events: "GstElementError \<notin> set (client_events f d cl)"
  by (simp add: client_events_def)

lemma sends_concat_client_events:
  "sends (concat (map (\<lambda>c. client_events f d (h c)) cs)) = map (\<lambda>c. (sock (h c), d)) cs"
  by (induction cs) (simp_all add: sends_append sends_client_events)

lemma removals_concat_client_events:
  "removals (concat (map (\<lambda>c. client_events f d (h c)) cs)) =
     map (\<lambda>c. (sock (h c), addr (h c))) (filter (\<lambda>c. f (sock (h c)) d = SRT_ERROR) cs)"
  by (induction cs) (simp_all add: removals_append removals_client_events)

lemma filter_only: "distinct xs \<Longrightarrow> K \<in> set xs \<Longrightarrow> filter (\<lambda>c. c = K) xs = [K]"
  by (induction xs) (auto simp: filter_empty_conv)

subsection \<open>Submitting buffers\<close>

text \<open>
  C1 fails on the code. The serving sink holds one queued buffer \<open>[0]\<close> and its dispatch
  task is outstanding. The producer submits \<open>[1]\<close>, \<open>[2]\<close>, \<open>[3]\<close>: each \<open>render\<close> locks,
  finds the queue non-empty and unlocks. No further task is scheduled, but the queue still
  holds \<open>[0]\<close> alone: the append sits inside the guard. The dispatch task then sends
  \<open>[0]\<close> to the three peers and nothing else; \<open>[1]\<close>, \<open>[2]\<close>, \<open>[3]\<close> are never sent.
\<close>

theorem render_drops_buffers_while_dispatch_outstanding:
  "queued_buffers sink_busy = [buf [0]] \<and>
   queued_buffers sink_busy3 = [buf [0]] \<and>
   trace sink_busy3 = [MutexLock, IdleSourceAttach, MutexUnlock,
                       MutexLock, MutexUnlock, MutexLock, MutexUnlock, MutexLock, MutexUnlock] \<and>
   dispatch_trace send_ok sink_busy3 =
     Some (trace sink_busy3 @
           [MutexLock, SrtSendMsg 11 [0], SrtSendMsg 12 [0], SrtSendMsg 13 [0],
            BufferUnref [0], MutexUnlock])"
  by (simp add: sink_busy3_def sink_busy_def sink_serving_def sink_started_def sink_init_def
      buf_def gst_srt_server_sink_render_def emit_def Let_def
      dispatch_trace_def srt_send_buffer_def send_ok_def SRT_ERROR_def)

subsection \<open>The accept unit\<close>

lemma accept_unit_detached: "accept_unit es (False, priv) = Inr (False, priv)"
  by (induction es) simp_all

text \<open>
  C2, as stated, fails. From the started sink, a peer that connects is accepted; but when
  a failed accept comes first, the callback has returned \<open>FALSE\<close>, the source is gone, and
  the same peer is not accepted: the registry stays empty.
\<close>

theorem accept_failure_counterexample:
  "accept_unit [accept_peer] (True, sink_started) =
     Inr (True, sink_started\<lparr>
       trace := [SrtEpollWait 2, SrtAccept 7, SigClientAdded 21 [10, 0, 0, 9], GstDebug],
       heap := (\<lambda>_. None)(0 \<mapsto> \<lparr>sock = 21, addr = [10, 0, 0, 9], ref_count = 1\<rparr>),
       next_ptr := 1, clients := [0]\<rparr>) \<and>
   accept_unit [accept_failed, accept_peer] (True, sink_started) =
     Inr (False, sink_started\<lparr>
       trace := [SrtEpollWait 2, SrtAccept 7, GstWarning, SrtClearLastError]\<rparr>)"
  by (simp add: idle_listen_callback_def accept_peer_def accept_failed_def sink_started_def
      sink_init_def gst_srt_client_new_def emit_def SRT_INVALID_SOCK_def Let_def)

text \<open>
  C2, amended. When \<open>srt_accept\<close> returns an invalid socket, the callback logs a warning,
  clears the last error, adds no session and returns \<open>FALSE\<close>. That removes the accept
  unit from the loop: whatever happens later, no further peer is accepted and the state
  stays as the failed accept left it. In general the callback, when it returns, returns
  \<open>TRUE\<close> exactly after a wait that timed out or an accept that succeeded.
\<close>

theorem idle_listen_callback_accept_failure:
  assumes "listen_wait_ret env \<noteq> -1" and "accept_ret env = SRT_INVALID_SOCK"
  shows "idle_listen_callback env priv =
           Inr (False, emit [SrtEpollWait (sink_poll_id priv), SrtAccept (sink_sock priv),
                             GstWarning, SrtClearLastError] priv) \<and>
         accept_unit (env # es) (True, priv) =
           Inr (False, emit [SrtEpollWait (sink_poll_id priv), SrtAccept (sink_sock priv),
                             GstWarning, SrtClearLastError] priv) \<and>
         clients (emit [SrtEpollWait (sink_poll_id priv), SrtAccept (sink_sock priv),
                             GstWarning, SrtClearLastError] priv) = clients priv \<and>
         (idle_listen_callback e priv = Inr (r, p) \<longrightarrow>
            r = (if listen_wait_ret e = -1 then lasterror e = SRT_ETIMEOUT
                 else accept_ret e \<noteq> SRT_INVALID_SOCK))"
proof -
  have "idle_listen_callback e priv = Inr (r, p) \<longrightarrow>
            r = (if listen_wait_ret e = -1 then lasterror e = SRT_ETIMEOUT
                 else accept_ret e \<noteq> SRT_INVALID_SOCK)"
    by (auto simp: idle_listen_callback_def Let_def split: if_splits prod.splits option.splits)
  then show ?thesis
    using assms
    by (simp add: idle_listen_callback_def Let_def accept_unit_detached emit_def)
qed

theorem idle_listen_callback_accept_failure_witness:
  "listen_wait_ret accept_failed \<noteq> -1 \<and> accept_ret accept_failed = SRT_INVALID_SOCK \<and>
   idle_listen_callback accept_failed sink_serving =
     Inr (False, sink_serving\<lparr>trace := [SrtEpollWait 2, SrtAccept 7, GstWarning, SrtClearLastError]\<rparr>) \<and>
   accept_unit [accept_failed, accept_peer, accept_peer] (True, sink_serving) =
     Inr (False, sink_serving\<lparr>trace := [SrtEpollWait 2, SrtAccept 7, GstWarning, SrtClearLastError]\<rparr>)"
  using idle_listen_callback_accept_failure
          [of accept_failed sink_serving "[accept_peer, accept_peer]" accept_failed False]
  by (simp add: accept_failed_def SRT_INVALID_SOCK_def emit_def sink_serving_def sink_started_def sink_init_def)

subsection \<open>The dispatch task\<close>

lemma unref_trace:
  "gst_srt_client_unref c w = Inr w' \<Longrightarrow>
     trace w' = trace w \<or> (\<exists>s. trace w' = trace w @ [SrtClose s])"
  by (auto simp: gst_srt_client_unref_def emit_def split: option.splits if_splits)

lemma send_to_clients_no_lock_events:
  "send_to_clients f d cs priv = Inr p \<Longrightarrow>
     \<exists>mid. trace p = trace priv @ mid \<and> MutexLock \<notin> set mid \<and> MutexUnlock \<notin> set mid"
proof (induction cs arbitrary: priv)
  case Nil
  then show ?case by simp
next
  case (Cons c cs)
  from Cons.prems obtain cl where cl: "heap priv c = Some cl"
    by (auto split: option.splits)
  let ?p1 = "emit [SrtSendMsg (sock cl) d] priv"
  show ?case
  proof (cases "f (sock cl) d = SRT_ERROR")
    case False
    with Cons.prems cl have "send_to_clients f d cs ?p1 = Inr p" by (simp add: Let_def)
    from Cons.IH[OF this] show ?thesis by (auto simp: emit_def)
  next
    case True
    let ?q = "emit [GstWarning, SigClientRemoved (sock cl) (addr cl)]
                (?p1\<lparr>clients := remove1 c (clients ?p1)\<rparr>)"
    from True Cons.prems cl obtain p2 where u: "gst_srt_client_unref c ?q = Inr p2"
      and r: "send_to_clients f d cs p2 = Inr p"
      by (auto simp: Let_def split: sum.splits)
    from unref_trace[OF u] Cons.IH[OF r] show ?thesis
      by (auto simp: emit_def)
  qed
qed

lemma send_buffers_no_lock_events:
  "send_buffers f bs cur priv = Inr p \<Longrightarrow>
     \<exists>mid. trace p = trace priv @ mid \<and> MutexLock \<notin> set mid \<and> MutexUnlock \<notin> set mid"
proof (induction bs arbitrary: cur priv)
  case Nil
  then show ?case by simp
next
  case (Cons b bs)
  show ?case
  proof (cases "mappable b")
    case False
    with Cons.prems have "send_buffers f bs cur (emit [GstElementError] priv) = Inr p" by simp
    from Cons.IH[OF this] show ?thesis by (auto simp: emit_def)
  next
    case True
    with Cons.prems obtain p1 where a: "send_to_clients f (data b) cur priv = Inr p1"
      and r: "send_buffers f bs [] p1 = Inr p"
      by (auto split: sum.splits)
    from send_to_clients_no_lock_events[OF a] Cons.IH[OF r] show ?thesis by auto
  qed
qed

text \<open>
  C3, as stated, fails. The dispatch task of the busy sink takes the mutex, sends to the
  three peers and only then releases it: sends happen while the lock is held.
\<close>

theorem dispatch_sends_while_locked_counterexample:
  "dispatch_trace send_ok sink_busy =
     Some [MutexLock, IdleSourceAttach, MutexUnlock,
           MutexLock, SrtSendMsg 11 [0], SrtSendMsg 12 [0], SrtSendMsg 13 [0],
           BufferUnref [0], MutexUnlock] \<and>
   send_while_locked False
          [MutexLock, IdleSourceAttach, MutexUnlock,
           MutexLock, SrtSendMsg 11 [0], SrtSendMsg 12 [0], SrtSendMsg 13 [0],
           BufferUnref [0], MutexUnlock]"
  by (simp add: sink_busy_def sink_serving_def sink_started_def sink_init_def
      buf_def gst_srt_server_sink_render_def emit_def Let_def
      dispatch_trace_def srt_send_buffer_def send_ok_def SRT_ERROR_def)

text \<open>
  C3, amended. \<open>render\<close> performs no send at all: it locks, appends and schedules if the
  queue was empty, and unlocks. The dispatch task, whenever it returns, has taken the
  mutex once at its start and released it once at its end, after all its sends and after
  clearing the queue; so it sends while the lock is held whenever it sends at all.
\<close>

theorem dispatch_holds_lock_for_whole_pass:
  "(srt_send_buffer f priv = Inr (r, p) \<longrightarrow>
      (\<exists>mid. new_events priv p = [MutexLock] @ mid @ [MutexUnlock] \<and>
             MutexLock \<notin> set mid \<and> MutexUnlock \<notin> set mid) \<and>
      send_while_locked False (new_events priv p) = (sends (new_events priv p) \<noteq> []) \<and>
      queued_buffers p = []) \<and>
   sends (new_events priv (snd (gst_srt_server_sink_render b priv))) = []"
proof (intro conjI impI)
  assume a: "srt_send_buffer f priv = Inr (r, p)"
  then obtain p1 where
    s: "send_buffers f (queued_buffers priv) (clients priv) (emit [MutexLock] priv) = Inr p1"
    and p: "p = emit [MutexUnlock]
                    ((emit (map (\<lambda>b. BufferUnref (data b)) (queued_buffers p1)) p1)
                       \<lparr>queued_buffers := []\<rparr>)"
    by (auto simp: srt_send_buffer_def Let_def split: sum.splits)
  from send_buffers_no_lock_events[OF s] obtain mid where
    m: "trace p1 = trace priv @ [MutexLock] @ mid" "MutexLock \<notin> set mid" "MutexUnlock \<notin> set mid"
    by (auto simp: emit_def)
  let ?mid = "mid @ map (\<lambda>b. BufferUnref (data b)) (queued_buffers p1)"
  have ne: "new_events priv p = [MutexLock] @ ?mid @ [MutexUnlock]"
    using m p by (simp add: new_events_def emit_def)
  have nl: "MutexLock \<notin> set ?mid" and nu: "MutexUnlock \<notin> set ?mid"
    using m by auto
  from ne nl nu
  show "\<exists>mid. new_events priv p = [MutexLock] @ mid @ [MutexUnlock] \<and>
             MutexLock \<notin> set mid \<and> MutexUnlock \<notin> set mid"
    by blast
  have "send_while_locked False (new_events priv p) = send_while_locked True (?mid @ [MutexUnlock])"
    unfolding ne by simp
  also have "\<dots> = (sends ?mid \<noteq> [])"
    by (rule locked_sends[OF nu])
  also have "sends ?mid = sends (new_events priv p)"
    unfolding ne by (simp add: sends_append)
  finally show "send_while_locked False (new_events priv p) = (sends (new_events priv p) \<noteq> [])" .
  show "queued_buffers p = []" using p by (simp add: emit_def)
next
  show "sends (new_events priv (snd (gst_srt_server_sink_render b priv))) = []"
    by (simp add: gst_srt_server_sink_render_def new_events_def emit_def Let_def)
qed

theorem dispatch_holds_lock_for_whole_pass_witness:
  "srt_send_buffer send_ok sink_busy =
     Inr (False, sink_busy\<lparr>
       trace := [MutexLock, IdleSourceAttach, MutexUnlock,
                 MutexLock, SrtSendMsg 11 [0], SrtSendMsg 12 [0], SrtSendMsg 13 [0],
                 BufferUnref [0], MutexUnlock],
       queued_buffers := []\<rparr>) \<and>
   send_while_locked False
     (new_events sink_busy (sink_busy\<lparr>
       trace := [MutexLock, IdleSourceAttach, MutexUnlock,
                 MutexLock, SrtSendMsg 11 [0], SrtSendMsg 12 [0], SrtSendMsg 13 [0],
                 BufferUnref [0], MutexUnlock],
       queued_buffers := []\<rparr>))"
proof -
  have run: "srt_send_buffer send_ok sink_busy =
     Inr (False, sink_busy\<lparr>
       trace := [MutexLock, IdleSourceAttach, MutexUnlock,
                 MutexLock, SrtSendMsg 11 [0], SrtSendMsg 12 [0], SrtSendMsg 13 [0],
                 BufferUnref [0], MutexUnlock],
       queued_buffers := []\<rparr>)"
    by (simp add: sink_busy_def sink_serving_def sink_started_def sink_init_def
        buf_def gst_srt_server_sink_render_def emit_def Let_def
        srt_send_buffer_def send_ok_def SRT_ERROR_def)
  have tr: "trace sink_busy = [MutexLock, IdleSourceAttach, MutexUnlock]"
    by (simp add: sink_busy_def sink_serving_def sink_started_def sink_init_def
        gst_srt_server_sink_render_def emit_def Let_def)
  show ?thesis
    using run tr dispatch_holds_lock_for_whole_pass [of send_ok sink_busy False _ "buf [1]"]
    by (simp add: new_events_def)
qed

lemma unref_live:
  "heap w c = Some cl \<Longrightarrow>
     \<exists>w'. gst_srt_client_unref c w = Inr w' \<and>
       trace w' = trace w @ (if ref_count cl - 1 > 0 then [] else [SrtClose (sock cl)]) \<and>
       (\<forall>c'. c' \<noteq> c \<longrightarrow> heap w' c' = heap w c') \<and>
       clients w' = clients w \<and> queued_buffers w' = queued_buffers w"
  by (simp add: gst_srt_client_unref_def emit_def)

lemma send_to_clients_result:
  "distinct cs \<Longrightarrow> \<forall>c\<in>set cs. heap priv c \<noteq> None \<Longrightarrow>
     \<exists>p. send_to_clients f d cs priv = Inr p \<and>
       trace p = trace priv @ concat (map (\<lambda>c. client_events f d (the (heap priv c))) cs) \<and>
       clients p = fold remove1
                     (filter (\<lambda>c. f (sock (the (heap priv c))) d = SRT_ERROR) cs) (clients priv) \<and>
       queued_buffers p = queued_buffers priv \<and>
       (\<forall>c'. c' \<notin> set cs \<longrightarrow> heap p c' = heap priv c')"
proof (induction cs arbitrary: priv)
  case Nil
  then show ?case by simp
next
  case (Cons c cs)
  from Cons.prems obtain cl where cl: "heap priv c = Some cl" by auto
  from Cons.prems have d: "distinct cs" and nc: "c \<notin> set cs" by auto
  let ?p1 = "emit [SrtSendMsg (sock cl) d] priv"
  show ?case
  proof (cases "f (sock cl) d = SRT_ERROR")
    case False
    have live: "\<forall>c'\<in>set cs. heap ?p1 c' \<noteq> None"
      using Cons.prems by (simp add: emit_def)
    from Cons.IH[OF d live] obtain p where
      p: "send_to_clients f d cs ?p1 = Inr p"
         "trace p = trace ?p1 @ concat (map (\<lambda>c. client_events f d (the (heap ?p1 c))) cs)"
         "clients p = fold remove1
             (filter (\<lambda>c. f (sock (the (heap ?p1 c))) d = SRT_ERROR) cs) (clients ?p1)"
         "queued_buffers p = queued_buffers ?p1"
         "\<forall>c'. c' \<notin> set cs \<longrightarrow> heap p c' = heap ?p1 c'"
      by blast
    have "send_to_clients f d (c # cs) priv = Inr p"
      using cl False p(1) by (simp add: Let_def)
    moreover have "trace p = trace priv @ concat (map (\<lambda>c. client_events f d (the (heap priv c))) (c # cs))"
      using p(2) cl False by (simp add: emit_def client_events_def)
    moreover have "clients p = fold remove1
             (filter (\<lambda>c. f (sock (the (heap priv c))) d = SRT_ERROR) (c # cs)) (clients priv)"
      using p(3) cl False by (simp add: emit_def)
    moreover have "queued_buffers p = queued_buffers priv"
      using p(4) by (simp add: emit_def)
    moreover have "\<forall>c'. c' \<notin> set (c # cs) \<longrightarrow> heap p c' = heap priv c'"
      using p(5) by (simp add: emit_def)
    ultimately show ?thesis by blast
  next
    case True
    let ?q = "emit [GstWarning, SigClientRemoved (sock cl) (addr cl)]
                (?p1\<lparr>clients := remove1 c (clients ?p1)\<rparr>)"
    have hq: "heap ?q c = Some cl" using cl by (simp add: emit_def)
    from unref_live[OF hq] obtain p2 where
      u: "gst_srt_client_unref c ?q = Inr p2"
         "trace p2 = trace ?q @ (if ref_count cl - 1 > 0 then [] else [SrtClose (sock cl)])"
         "\<forall>c'. c' \<noteq> c \<longrightarrow> heap p2 c' = heap ?q c'"
         "clients p2 = clients ?q" "queued_buffers p2 = queued_buffers ?q"
      by blast
    have same: "\<forall>c'\<in>set cs. heap p2 c' = heap priv c'"
      using u(3) nc by (auto simp: emit_def)
    then have live: "\<forall>c'\<in>set cs. heap p2 c' \<noteq> None"
      using Cons.prems by auto
    from Cons.IH[OF d live] obtain p where
      p: "send_to_clients f d cs p2 = Inr p"
         "trace p = trace p2 @ concat (map (\<lambda>c. client_events f d (the (heap p2 c))) cs)"
         "clients p = fold remove1
             (filter (\<lambda>c. f (sock (the (heap p2 c))) d = SRT_ERROR) cs) (clients p2)"
         "queued_buffers p = queued_buffers p2"
         "\<forall>c'. c' \<notin> set cs \<longrightarrow> heap p c' = heap p2 c'"
      by blast
    have m1: "map (\<lambda>c. client_events f d (the (heap p2 c))) cs
                = map (\<lambda>c. client_events f d (the (heap priv c))) cs"
      using same by (intro map_cong) auto
    have m2: "filter (\<lambda>c. f (sock (the (heap p2 c))) d = SRT_ERROR) cs
                = filter (\<lambda>c. f (sock (the (heap priv c))) d = SRT_ERROR) cs"
      using same by (intro filter_cong) auto
    have "send_to_clients f d (c # cs) priv = Inr p"
      using cl True u(1) p(1) by (simp add: Let_def)
    moreover have "trace p = trace priv @ concat (map (\<lambda>c. client_events f d (the (heap priv c))) (c # cs))"
    proof -
      have ce: "client_events f d cl =
                  [SrtSendMsg (sock cl) d, GstWarning, SigClientRemoved (sock cl) (addr cl)] @
                  (if ref_count cl - 1 > 0 then [] else [SrtClose (sock cl)])"
        using True by (simp add: client_events_def)
      show ?thesis using p(2) u(2) cl m1 ce by (simp add: emit_def)
    qed
    moreover have "clients p = fold remove1
             (filter (\<lambda>c. f (sock (the (heap priv c))) d = SRT_ERROR) (c # cs)) (clients priv)"
      using p(3) u(4) cl True m2 by (simp add: emit_def)
    moreover have "queued_buffers p = queued_buffers priv"
      using p(4) u(5) by (simp add: emit_def)
    moreover have "\<forall>c'. c' \<notin> set (c # cs) \<longrightarrow> heap p c' = heap priv c'"
      using p(5) u(3) by (simp add: emit_def)
    ultimately show ?thesis by blast
  qed
qed

text \<open>
  C4. One dispatch pass over a queued buffer \<open>b\<close> that can be mapped, with the registered
  sessions alive and pairwise different, where the send fails for session \<open>K\<close> and for no
  other. The task returns; every registered session, those after \<open>K\<close> included, was sent
  the bytes of \<open>b\<close>, in registry order; \<open>K\<close> has left the registry; exactly one
  client-removed notification was emitted, for \<open>K\<close>; no element error was posted, and
  the producer's next \<open>render\<close> returns \<open>GST_FLOW_OK\<close>.
\<close>

theorem dispatch_isolates_failed_session:
  assumes q: "queued_buffers priv = [b]" "mappable b"
    and d: "distinct (clients priv)"
    and live: "\<forall>c\<in>set (clients priv). heap priv c \<noteq> None"
    and K: "K \<in> set (clients priv)" "heap priv K = Some k"
    and fail: "\<forall>c\<in>set (clients priv).
                 (f (sock (the (heap priv c))) (data b) = SRT_ERROR) = (c = K)"
  shows "\<exists>p. srt_send_buffer f priv = Inr (False, p) \<and>
           sends (new_events priv p) =
             map (\<lambda>c. (sock (the (heap priv c)), data b)) (clients priv) \<and>
           clients p = remove1 K (clients priv) \<and> K \<notin> set (clients p) \<and>
           removals (new_events priv p) = [(sock k, addr k)] \<and>
           GstElementError \<notin> set (new_events priv p) \<and>
           fst (gst_srt_server_sink_render b' p) = GST_FLOW_OK"
proof -
  let ?p0 = "emit [MutexLock] priv"
  let ?cs = "clients priv"
  let ?ev = "concat (map (\<lambda>c. client_events f (data b) (the (heap priv c))) ?cs)"
  have live0: "\<forall>c\<in>set ?cs. heap ?p0 c \<noteq> None"
    using live by (simp add: emit_def)
  from send_to_clients_result[OF d live0, of f "data b"] obtain p1 where
    p1: "send_to_clients f (data b) ?cs ?p0 = Inr p1"
        "trace p1 = trace ?p0 @ concat (map (\<lambda>c. client_events f (data b) (the (heap ?p0 c))) ?cs)"
        "clients p1 = fold remove1
            (filter (\<lambda>c. f (sock (the (heap ?p0 c))) (data b) = SRT_ERROR) ?cs) (clients ?p0)"
        "queued_buffers p1 = queued_buffers ?p0"
    by blast
  have tr1: "trace p1 = trace priv @ [MutexLock] @ ?ev"
    using p1(2) by (simp add: emit_def)
  have "filter (\<lambda>c. f (sock (the (heap priv c))) (data b) = SRT_ERROR) ?cs
          = filter (\<lambda>c. c = K) ?cs"
    using fail by (intro filter_cong) auto
  then have fl: "filter (\<lambda>c. f (sock (the (heap priv c))) (data b) = SRT_ERROR) ?cs = [K]"
    using filter_only[OF d K(1)] by simp
  have cl1: "clients p1 = remove1 K ?cs"
    using p1(3) fl by (simp add: emit_def)
  let ?p = "emit [MutexUnlock]
              ((emit (map (\<lambda>b. BufferUnref (data b)) (queued_buffers p1)) p1)
                 \<lparr>queued_buffers := []\<rparr>)"
  have run: "srt_send_buffer f priv = Inr (False, ?p)"
    using p1(1) q by (simp add: srt_send_buffer_def Let_def)
  have ne: "new_events priv ?p = [MutexLock] @ ?ev @ [BufferUnref (data b), MutexUnlock]"
    using tr1 p1(4) q by (simp add: new_events_def emit_def)
  have s: "sends (new_events priv ?p) = map (\<lambda>c. (sock (the (heap priv c)), data b)) ?cs"
    unfolding ne by (simp add: sends_append sends_concat_client_events)
  have r: "removals (new_events priv ?p) = [(sock k, addr k)]"
    unfolding ne using fl K(2)
    by (simp add: removals_append removals_concat_client_events)
  have e: "GstElementError \<notin> set (new_events priv ?p)"
    unfolding ne by (simp add: element_error_client_events)
  have c: "clients ?p = remove1 K ?cs" using cl1 by (simp add: emit_def)
  have k: "K \<notin> set (clients ?p)" using c d by simp
  have o: "fst (gst_srt_server_sink_render b' ?p) = GST_FLOW_OK"
    by (simp add: gst_srt_server_sink_render_def Let_def)
  from run s c k r e o show ?thesis by blast
qed

theorem dispatch_isolates_failed_session_witness:
  "queued_buffers sink_busy = [buf [0]] \<and> mappable (buf [0]) \<and>
   clients sink_busy = [0, 1, 2] \<and>
   heap sink_busy 0 = Some \<lparr>sock = 11, addr = [10, 0, 0, 1], ref_count = 1\<rparr> \<and>
   heap sink_busy 1 = Some \<lparr>sock = 12, addr = [10, 0, 0, 2], ref_count = 1\<rparr> \<and>
   heap sink_busy 2 = Some \<lparr>sock = 13, addr = [10, 0, 0, 3], ref_count = 1\<rparr> \<and>
   send_fails_12 11 [0] \<noteq> SRT_ERROR \<and> send_fails_12 12 [0] = SRT_ERROR \<and>
   send_fails_12 13 [0] \<noteq> SRT_ERROR \<and>
   (\<exists>p. srt_send_buffer send_fails_12 sink_busy = Inr (False, p) \<and>
        sends (new_events sink_busy p) = [(11, [0]), (12, [0]), (13, [0])] \<and>
        clients p = [0, 2] \<and>
        removals (new_events sink_busy p) = [(12, [10, 0, 0, 2])])"
proof -
  have h: "queued_buffers sink_busy = [buf [0]]" "mappable (buf [0])"
    "distinct (clients sink_busy)" "\<forall>c\<in>set (clients sink_busy). heap sink_busy c \<noteq> None"
    "1 \<in> set (clients sink_busy)"
    "heap sink_busy 1 = Some \<lparr>sock = 12, addr = [10, 0, 0, 2], ref_count = 1\<rparr>"
    "\<forall>c\<in>set (clients sink_busy).
       (send_fails_12 (sock (the (heap sink_busy c))) (data (buf [0])) = SRT_ERROR) = (c = 1)"
    by (simp_all add: sink_busy_def sink_serving_def sink_started_def sink_init_def
      buf_def gst_srt_server_sink_render_def emit_def Let_def send_fails_12_def SRT_ERROR_def)
  have c: "clients sink_busy = [0, 1, 2]"
    "heap sink_busy 0 = Some \<lparr>sock = 11, addr = [10, 0, 0, 1], ref_count = 1\<rparr>"
    "heap sink_busy 2 = Some \<lparr>sock = 13, addr = [10, 0, 0, 3], ref_count = 1\<rparr>"
    "data (buf [0]) = [0]"
    by (simp_all add: sink_busy_def sink_serving_def sink_started_def sink_init_def
      buf_def gst_srt_server_sink_render_def emit_def Let_def)
  have f: "send_fails_12 11 [0] \<noteq> SRT_ERROR" "send_fails_12 12 [0] = SRT_ERROR"
    "send_fails_12 13 [0] \<noteq> SRT_ERROR"
    by (simp_all add: send_fails_12_def SRT_ERROR_def)
  show ?thesis
    using h(1,2,6) c f
      dispatch_isolates_failed_session
         [where priv = sink_busy and b = "buf [0]" and K = 1 and f = send_fails_12
            and b' = "buf [1]", OF h]
    by auto
qed

subsection \<open>Start and stop\<close>

text \<open>
  C5 fails on the code. With \<open>srt_epoll_create\<close> failing after the socket was created,
  both \<open>start\<close> functions close the socket and return \<open>TRUE\<close>: this branch alone does
  not set \<open>ret = FALSE\<close>.
\<close>

theorem start_epoll_create_failure_returns_true:
  "gst_srt_server_sink_start env_epoll_fails sink_init =
     (True, sink_init\<lparr>trace := [SrtSocket, SrtSetSockOpt 7, SrtEpollCreate, GstWarning, SrtClose 7],
                      sink_sock := 7, sink_poll_id := -1\<rparr>) \<and>
   gst_srt_client_src_start env_epoll_fails src_init =
     (True, src_init\<lparr>trace := [SrtSocket, SrtEpollCreate, GstWarning, SrtClose 7],
                     srt_sock := 7, srt_poll_id := -1\<rparr>)"
  by (simp add: gst_srt_server_sink_start_def gst_srt_client_src_start_def env_epoll_fails_def
      sink_init_def src_init_def server_default_uri_def client_default_uri_def
      gst_uri_get_host_def gst_uri_get_port_def GST_URI_NO_PORT_def SRT_ERROR_def emit_def Let_def)

text \<open>
  On a failed thread spawn the server's \<open>start\<close> does return \<open>FALSE\<close>, with the socket,
  the poll id, the context, the source and the loop all still allocated.
\<close>

lemma start_thread_failure_releases_nothing:
  "gst_srt_server_sink_start env_thread_fails sink_init =
     (False, sink_init\<lparr>trace := [SrtSocket, SrtSetSockOpt 7, SrtEpollCreate, SrtEpollAddUsock 2 7,
                                 SrtBind 7, GstInfo, SrtListen 7, MainContextNew,
                                 ServerSourceAttach, MainLoopNew, MutexLock, ThreadTryNew,
                                 GstWarning, MutexUnlock],
                       sink_sock := 7, sink_poll_id := 2,
                       main_loop := True, main_context := True, server_source := True\<rparr>)"
  by (simp add: gst_srt_server_sink_start_def env_thread_fails_def
      sink_init_def server_default_uri_def
      gst_uri_get_host_def gst_uri_get_port_def GST_URI_NO_PORT_def SRT_ERROR_def emit_def Let_def)

text \<open>
  C6, as stated, fails. Stopping the started sink twice closes socket 7 twice, and
  stopping the started client source twice closes socket 3 twice.
\<close>

theorem stop_twice_counterexample:
  "gst_srt_server_sink_stop sink_started =
     Inr (True, sink_init\<lparr>sink_sock := 7, sink_poll_id := 2,
       trace := [GstDebug, GstDebug, SrtEpollRemoveUsock 2 7, SrtEpollRelease 2, SrtClose 7,
                 MainLoopQuit, ThreadJoin, SourceDestroy]\<rparr>) \<and>
   gst_srt_server_sink_stop (sink_init\<lparr>sink_sock := 7, sink_poll_id := 2,
       trace := [GstDebug, GstDebug, SrtEpollRemoveUsock 2 7, SrtEpollRelease 2, SrtClose 7,
                 MainLoopQuit, ThreadJoin, SourceDestroy]\<rparr>) =
     Inr (True, sink_init\<lparr>sink_sock := 7, sink_poll_id := 2,
       trace := [GstDebug, GstDebug, SrtEpollRemoveUsock 2 7, SrtEpollRelease 2, SrtClose 7,
                 MainLoopQuit, ThreadJoin, SourceDestroy,
                 GstDebug, GstDebug, SrtEpollRemoveUsock 2 7, SrtEpollRelease 2, SrtClose 7]\<rparr>) \<and>
   gst_srt_client_src_stop src_started =
     (True, src_started\<lparr>trace := [SrtEpollRemoveUsock 1 3, SrtEpollRelease 1, GstDebug, SrtClose 3]\<rparr>) \<and>
   gst_srt_client_src_stop
       (src_started\<lparr>trace := [SrtEpollRemoveUsock 1 3, SrtEpollRelease 1, GstDebug, SrtClose 3]\<rparr>) =
     (True, src_started\<lparr>trace := [SrtEpollRemoveUsock 1 3, SrtEpollRelease 1, GstDebug, SrtClose 3,
                                   SrtEpollRemoveUsock 1 3, SrtEpollRelease 1, GstDebug, SrtClose 3]\<rparr>) \<and>
   closes [GstDebug, GstDebug, SrtEpollRemoveUsock 2 7, SrtEpollRelease 2, SrtClose 7,
           MainLoopQuit, ThreadJoin, SourceDestroy,
           GstDebug, GstDebug, SrtEpollRemoveUsock 2 7, SrtEpollRelease 2, SrtClose 7] = [7, 7] \<and>
   closes [SrtEpollRemoveUsock 1 3, SrtEpollRelease 1, GstDebug, SrtClose 3,
           SrtEpollRemoveUsock 1 3, SrtEpollRelease 1, GstDebug, SrtClose 3] = [3, 3]"
  by (simp add: gst_srt_server_sink_stop_def gst_srt_client_src_stop_def sink_started_def
      sink_init_def src_started_def emit_def Let_def)

text \<open>
  C6, amended. A second \<open>stop\<close> reports no error and returns \<open>TRUE\<close>, and it leaves the
  element as the first \<open>stop\<close> left it: loop, thread, accept source and context are not
  released again, and with no session registered no session is released and no
  client-removed notification is emitted. But \<open>stop\<close> does not reset the stored socket
  and poll id, so the second call repeats \<open>srt_epoll_remove_usock\<close>, \<open>srt_epoll_release\<close>
  and \<open>srt_close\<close> on the same handles, in the server sink and in the client source.
\<close>

theorem second_stop_repeats_only_transport_release:
  assumes "clients sink = []"
  shows "(\<exists>p1 p2. gst_srt_server_sink_stop sink = Inr (True, p1) \<and>
            gst_srt_server_sink_stop p1 = Inr (True, p2) \<and>
            new_events p1 p2 = [GstDebug, GstDebug,
                                SrtEpollRemoveUsock (sink_poll_id sink) (sink_sock sink),
                                SrtEpollRelease (sink_poll_id sink),
                                SrtClose (sink_sock sink)] \<and>
            p2 = p1\<lparr>trace := trace p2\<rparr>) \<and>
         (\<exists>q1 q2. gst_srt_client_src_stop src = (True, q1) \<and>
            gst_srt_client_src_stop q1 = (True, q2) \<and>
            new_events q1 q2 = [SrtEpollRemoveUsock (srt_poll_id src) (srt_sock src),
                                SrtEpollRelease (srt_poll_id src),
                                GstDebug,
                                SrtClose (srt_sock src)] \<and>
            q2 = q1\<lparr>trace := trace q2\<rparr>)"
  using assms
  by (auto simp: gst_srt_server_sink_stop_def gst_srt_client_src_stop_def emit_def Let_def
      new_events_def)

theorem second_stop_repeats_only_transport_release_witness:
  "clients sink_started = [] \<and>
   (\<exists>p1 p2. gst_srt_server_sink_stop sink_started = Inr (True, p1) \<and>
      gst_srt_server_sink_stop p1 = Inr (True, p2) \<and>
      new_events p1 p2 = [GstDebug, GstDebug, SrtEpollRemoveUsock 2 7, SrtEpollRelease 2, SrtClose 7]) \<and>
   (\<exists>q1 q2. gst_srt_client_src_stop src_started = (True, q1) \<and>
      gst_srt_client_src_stop q1 = (True, q2) \<and>
      new_events q1 q2 = [SrtEpollRemoveUsock 1 3, SrtEpollRelease 1, GstDebug, SrtClose 3])"
proof -
  have h: "clients sink_started = []"
    by (simp add: sink_started_def sink_init_def)
  have v: "sink_poll_id sink_started = 2" "sink_sock sink_started = 7"
    "srt_poll_id src_started = 1" "srt_sock src_started = 3"
    by (simp_all add: sink_started_def sink_init_def src_started_def)
  show ?thesis
    using h v second_stop_repeats_only_transport_release [OF h, of src_started]
    by auto
qed

end
